theory Spec2Isabelle
  imports Complex_Main "HOL-Library.AList" "HOL-Library.Sublist"
begin

section \<open>Python values shared by the two scripts\<close>

text \<open>
  Exceptions are values. Each constructor carries what \<open>str(e)\<close> would print. The last three
  stand for failures of the libraries: \<open>OtherException\<close> for pandas and matplotlib failures
  that the scripts do not name (ParserError, UnicodeDecodeError, a rendering error),
  \<open>InvalidSignature\<close> for the cryptography package and \<open>BadSignatureError\<close> for the ecdsa
  package.
\<close>

datatype exn =
    FileNotFoundError string
  | ValueError string
  | EmptyDataError string
  | KeyError string
  | OtherException string
  | InvalidSignature
  | BadSignatureError

text \<open>
  \<open>repr\<close> of a Python string, as the f-strings of the report generator print the entries of a
  list of strings. The equation is Python's for text without quote, backslash and control
  characters; the six operation labels and the column names are such text.
\<close>

definition py_repr :: "string \<Rightarrow> string" where
  "py_repr s = [CHR 0x27] @ s @ [CHR 0x27]"

fun py_join :: "string \<Rightarrow> string list \<Rightarrow> string" where
  "py_join sep [] = []"
| "py_join sep [s] = s"
| "py_join sep (s # t # ss) = s @ sep @ py_join sep (t # ss)"

definition py_repr_list :: "string list \<Rightarrow> string" where
  "py_repr_list ss = ''['' @ py_join '', '' (map py_repr ss) @ '']''"

section \<open>The report generator (illustrate.py)\<close>

subsection \<open>Tables, files and the plotting library\<close>

text \<open>
  A cell of a table read by \<open>pd.read_csv\<close>. Times are idealised as real numbers; a cell that
  holds no number (NaN, read from an empty field) has no counterpart here.
  \<^item> \<open>Num r\<close> is a cell of a numeric column;
  \<^item> \<open>Str s\<close> is a text cell whose text \<open>s\<close> Python's \<open>float()\<close> rejects (an operation label,
    \<open>abc\<close>);
  \<^item> \<open>NumStr s r\<close> is a text cell whose text \<open>s\<close> is a float literal of value \<open>r\<close> (pandas
    keeps such cells as text in a column that also holds text of the second kind).
\<close>

datatype cell = Num real | Str string | NumStr string real

text \<open>
  A data frame has its column names and its rows in file order; a row gives the cell under each
  column name (only the names in \<open>columns\<close> are ever read).
\<close>

type_synonym row = "string \<Rightarrow> cell"

record dataframe =
  columns :: "string list"
  rows :: "row list"

text \<open>
  The figure that \<open>create_benchmark_chart\<close> asks matplotlib to draw: the heights of the two
  groups of bars and the block of environment details below the plot, if any. Colours, fonts,
  the value labels and the axis limit are styling and are left out.
\<close>

record figure =
  ed_bars :: "real list"
  secp_bars :: "real list"
  details_block :: "(cell \<times> cell) list option"

text \<open>
  What a path of the file system holds: a file with nothing to parse (zero bytes), a
  comma-separated table, a file that \<open>pd.read_csv\<close> cannot parse, or a saved chart.
  A path that holds nothing is \<open>None\<close>.
\<close>

datatype disk_file = Empty_File | Table dataframe | Unreadable | Image figure

type_synonym disk = "string \<Rightarrow> disk_file option"

text \<open>
  The plotting library is a parameter: for each figure it either draws, saves and shows it, or
  raises before the image is written, or raises after (in \<open>plt.show\<close>). Every failure
  between the first matplotlib call and \<open>plt.savefig\<close> is of the second kind, also that of a
  list of times that does not fit the three categories.
\<close>

datatype plt_result = Saved_And_Shown | Fails_Before_Save exn | Fails_After_Save exn

type_synonym plt = "figure \<Rightarrow> plt_result"

text \<open>The column header \<open>Time (\<mu>s/op)\<close>, the micro sign in UTF-8.\<close>

definition time_column :: string where
  "time_column = ''Time ('' @ [CHR 0xC2, CHR 0xB5] @ ''s/op)''"

definition pd_read_csv :: "disk \<Rightarrow> string \<Rightarrow> exn + dataframe" where
  "pd_read_csv disk csv_path =
     (case disk csv_path of
        None \<Rightarrow> Inl (FileNotFoundError (''[Errno 2] No such file or directory: '' @ py_repr csv_path))
      | Some Empty_File \<Rightarrow> Inl (EmptyDataError ''No columns to parse from file'')
      | Some (Table df) \<Rightarrow> Inr df
      | Some Unreadable \<Rightarrow> Inl (OtherException ''ParserError'')
      | Some (Image fig) \<Rightarrow> Inl (OtherException ''UnicodeDecodeError''))"

text \<open>\<open>cell == op\<close> for a string \<open>op\<close>: a text cell with that text.\<close>

fun cell_eq_str :: "cell \<Rightarrow> string \<Rightarrow> bool" where
  "cell_eq_str (Num r) op = False"
| "cell_eq_str (Str s) op = (s = op)"
| "cell_eq_str (NumStr s r) op = (s = op)"

text \<open>\<open>float(cell)\<close>.\<close>

fun py_float :: "cell \<Rightarrow> exn + real" where
  "py_float (Num r) = Inr r"
| "py_float (NumStr s r) = Inr r"
| "py_float (Str s) = Inl (ValueError (''could not convert string to float: '' @ py_repr s))"

subsection \<open>load_and_validate_data\<close>

definition required_columns :: "string list" where
  "required_columns = [''Operation'', time_column]"

definition required_operations :: "string list" where
  "required_operations =
     [''Ed25519 KeyGen'', ''Ed25519 Signing'', ''Ed25519 Verification'',
      ''secp256k1 KeyGen'', ''secp256k1 Signing'', ''secp256k1 Verification'']"

text \<open>The body of the \<open>try\<close> block.\<close>

definition validate_data :: "disk \<Rightarrow> string \<Rightarrow> exn + dataframe" where
  "validate_data disk csv_path =
     (case pd_read_csv disk csv_path of
        Inl e \<Rightarrow> Inl e
      | Inr df \<Rightarrow>
          (let missing_columns = [col \<leftarrow> required_columns. col \<notin> set (columns df)] in
           if missing_columns \<noteq> [] then
             Inl (ValueError (''Missing required columns: '' @ py_repr_list missing_columns))
           else
             (let existing_operations = map (\<lambda>r. r ''Operation'') (rows df);
                  missing_operations =
                    [op \<leftarrow> required_operations.
                       \<not> (\<exists>c \<in> set existing_operations. cell_eq_str c op)] in
              if missing_operations \<noteq> [] then
                Inl (ValueError (''Missing required operations: '' @ py_repr_list missing_operations))
              else Inr df)))"

text \<open>The two \<open>except\<close> clauses; every other exception propagates.\<close>

definition load_and_validate_data :: "disk \<Rightarrow> string \<Rightarrow> exn + dataframe" where
  "load_and_validate_data disk csv_path =
     (case validate_data disk csv_path of
        Inl (FileNotFoundError m) \<Rightarrow>
          Inl (FileNotFoundError (''Benchmark results file not found: '' @ csv_path))
      | Inl (EmptyDataError m) \<Rightarrow> Inl (ValueError ''CSV file is empty'')
      | Inl e \<Rightarrow> Inl e
      | Inr df \<Rightarrow> Inr df)"

subsection \<open>extract_benchmark_times\<close>

definition operations_ed25519 :: "string list" where
  "operations_ed25519 = [''Ed25519 KeyGen'', ''Ed25519 Signing'', ''Ed25519 Verification'']"

definition operations_secp256k1 :: "string list" where
  "operations_secp256k1 = [''secp256k1 KeyGen'', ''secp256k1 Signing'', ''secp256k1 Verification'']"

text \<open>
  \<open>df.loc[df["Operation"] == op, "Time (\<mu>s/op)"]\<close>: the time cells of the rows whose operation
  cell is \<open>op\<close>, in file order. Either column lookup raises KeyError when the frame has no such
  column.
\<close>

definition matching_rows :: "dataframe \<Rightarrow> string \<Rightarrow> exn + cell list" where
  "matching_rows df op =
     (if ''Operation'' \<notin> set (columns df) then Inl (KeyError (py_repr ''Operation''))
      else if time_column \<notin> set (columns df) then Inl (KeyError (py_repr time_column))
      else Inr (map (\<lambda>r. r time_column)
                  (filter (\<lambda>r. cell_eq_str (r ''Operation'') op) (rows df))))"

text \<open>The loop of \<open>get_times_for_curve\<close>, with the list \<open>times\<close> built so far as \<open>times_acc\<close>.\<close>

fun get_times_loop :: "dataframe \<Rightarrow> string list \<Rightarrow> real list \<Rightarrow> exn + real list" where
  "get_times_loop df [] times_acc = Inr times_acc"
| "get_times_loop df (op # ops) times_acc =
     (case matching_rows df op of
        Inl e \<Rightarrow> Inl e
      | Inr [] \<Rightarrow> Inl (ValueError (''No data found for operation: '' @ op))
      | Inr (c # cs) \<Rightarrow>
          (case py_float c of
             Inl e \<Rightarrow> Inl e
           | Inr t \<Rightarrow> get_times_loop df ops (times_acc @ [t])))"

definition get_times_for_curve :: "dataframe \<Rightarrow> string list \<Rightarrow> exn + real list" where
  "get_times_for_curve df ops = get_times_loop df ops []"

definition extract_benchmark_times :: "dataframe \<Rightarrow> exn + (real list \<times> real list)" where
  "extract_benchmark_times df =
     (case get_times_for_curve df operations_ed25519 of
        Inl e \<Rightarrow> Inl e
      | Inr ed_times \<Rightarrow>
          (case get_times_for_curve df operations_secp256k1 of
             Inl e \<Rightarrow> Inl e
           | Inr secp_times \<Rightarrow> Inr (ed_times, secp_times)))"

subsection \<open>load_environment_details\<close>

text \<open>
  \<open>dict(pairs)\<close>: a Python dictionary keeps its keys in the order of their first insertion, and
  a later value for a key replaces the earlier one in place.
\<close>

definition py_dict :: "('k \<times> 'v) list \<Rightarrow> ('k \<times> 'v) list" where
  "py_dict pairs = fold (\<lambda>(k, v) d. AList.update k v d) pairs []"

text \<open>The body of the \<open>try\<close> block.\<close>

definition read_environment_details :: "disk \<Rightarrow> string \<Rightarrow> exn + (cell \<times> cell) list" where
  "read_environment_details disk csv_path =
     (case pd_read_csv disk csv_path of
        Inl e \<Rightarrow> Inl e
      | Inr df \<Rightarrow>
          if \<not> {''Property'', ''Value''} \<subseteq> set (columns df) then
            Inl (ValueError (''Environment details CSV must have '' @ py_repr ''Property''
                   @ '' and '' @ py_repr ''Value'' @ '' columns''))
          else
            Inr (py_dict (zip (map (\<lambda>r. r ''Property'') (rows df))
                              (map (\<lambda>r. r ''Value'') (rows df)))))"

text \<open>Both \<open>except\<close> clauses return the empty dictionary.\<close>

definition load_environment_details :: "disk \<Rightarrow> string \<Rightarrow> (cell \<times> cell) list" where
  "load_environment_details disk csv_path =
     (case read_environment_details disk csv_path of
        Inl (FileNotFoundError m) \<Rightarrow> []
      | Inl e \<Rightarrow> []
      | Inr details \<Rightarrow> details)"

subsection \<open>create_benchmark_chart, main and the exit status\<close>

text \<open>
  The chart is the figure handed to the plotting library; \<open>plt.savefig\<close> writes it at
  \<open>output_path\<close>. The block of environment details is there only when \<open>env_details\<close> is not
  empty; it is kept as the entries of the dictionary, in order, not as rendered text.
  The result is the exception raised, if any, and the file system afterwards.
\<close>

definition create_benchmark_chart ::
  "plt \<Rightarrow> real list \<Rightarrow> real list \<Rightarrow> (cell \<times> cell) list \<Rightarrow> string \<Rightarrow> disk \<Rightarrow> exn option \<times> disk" where
  "create_benchmark_chart plt ed_times secp_times env_details output_path disk =
     (let fig = \<lparr>ed_bars = ed_times, secp_bars = secp_times,
                 details_block = (if env_details \<noteq> [] then Some env_details else None)\<rparr> in
      case plt fig of
        Fails_Before_Save e \<Rightarrow> (Some e, disk)
      | Fails_After_Save e \<Rightarrow> (Some e, disk(output_path \<mapsto> Image fig))
      | Saved_And_Shown \<Rightarrow> (None, disk(output_path \<mapsto> Image fig)))"

definition csv_file :: string where
  "csv_file = ''benchmark_results.csv''"

definition env_file :: string where
  "env_file = ''env_info.csv''"

definition output_file :: string where
  "output_file = ''benchmark_comparison.png''"

text \<open>
  \<open>main\<close> returns whether the report was generated, and the file system afterwards. Both
  \<open>except\<close> clauses of \<open>main\<close> log the exception and return \<open>False\<close>; the log is not modelled.
\<close>

definition main :: "disk \<Rightarrow> plt \<Rightarrow> bool \<times> disk" where
  "main disk plt =
     (case load_and_validate_data disk csv_file of
        Inl e \<Rightarrow> (False, disk)
      | Inr df \<Rightarrow>
          (let env_details = load_environment_details disk env_file in
           case extract_benchmark_times df of
             Inl e \<Rightarrow> (False, disk)
           | Inr (ed_times, secp_times) \<Rightarrow>
               (case create_benchmark_chart plt ed_times secp_times env_details output_file disk of
                  (Some e, disk') \<Rightarrow> (False, disk')
                | (None, disk') \<Rightarrow> (True, disk'))))"

text \<open>The script: \<open>if not main(): exit(1)\<close>; falling off the end is exit status 0.\<close>

definition exit_status :: "disk \<Rightarrow> plt \<Rightarrow> nat" where
  "exit_status disk plt = (if \<not> fst (main disk plt) then 1 else 0)"

section \<open>The benchmark runner (benchmark.py)\<close>

subsection \<open>The clock and the signature libraries\<close>

text \<open>
  A private key is the scheme and the number of key pairs generated before it in the process:
  two calls of \<open>generate\<close> never return the same key pair. A signature is its signer and the
  message signed.
\<close>

datatype scheme = Ed25519 | Secp256k1

datatype private_key = PrivateKey scheme nat

datatype pubkey = PublicKey scheme nat

datatype signature = Signature private_key string

text \<open>What the process did, in order: readings of the clock and calls of the libraries.\<close>

datatype event =
    Clock_Read
  | Generate private_key
  | Sign private_key string
  | Verify pubkey signature string

text \<open>
  The world of the runner: \<open>clock w n\<close> is what the \<open>n\<close>-th call of \<open>time.time()\<close> returns (times
  are idealised as real numbers), \<open>clock_reads\<close> counts the calls so far, \<open>keys_made\<close> the key pairs
  generated so far, and \<open>trace\<close> lists the events so far, oldest first.
\<close>

record world =
  clock :: "nat \<Rightarrow> real"
  clock_reads :: nat
  keys_made :: nat
  trace :: "event list"

definition time_time :: "world \<Rightarrow> real \<times> world" where
  "time_time w =
     (clock w (clock_reads w),
      w\<lparr>clock_reads := clock_reads w + 1, trace := trace w @ [Clock_Read]\<rparr>)"

definition generate :: "scheme \<Rightarrow> world \<Rightarrow> private_key \<times> world" where
  "generate s w =
     (let k = PrivateKey s (keys_made w) in
      (k, w\<lparr>keys_made := keys_made w + 1, trace := trace w @ [Generate k]\<rparr>))"

fun public_key :: "private_key \<Rightarrow> pubkey" where
  "public_key (PrivateKey s n) = PublicKey s n"

definition sign :: "private_key \<Rightarrow> string \<Rightarrow> world \<Rightarrow> signature \<times> world" where
  "sign k msg w = (Signature k msg, w\<lparr>trace := trace w @ [Sign k msg]\<rparr>)"

text \<open>
  Verification raises when the signature is not the one the matching private key makes of the
  message: \<open>InvalidSignature\<close> in the cryptography package, \<open>BadSignatureError\<close> in ecdsa.
\<close>

fun verify :: "pubkey \<Rightarrow> signature \<Rightarrow> string \<Rightarrow> world \<Rightarrow> exn + world" where
  "verify (PublicKey s n) sig msg w =
     (if sig = Signature (PrivateKey s n) msg then
        Inr (w\<lparr>trace := trace w @ [Verify (PublicKey s n) sig msg]\<rparr>)
      else Inl (case s of Ed25519 \<Rightarrow> InvalidSignature | Secp256k1 \<Rightarrow> BadSignatureError))"

definition ITERATIONS :: nat where
  "ITERATIONS = 1000"

definition message :: string where
  "message = ''benchmark test message''"

text \<open>\<open>for _ in range(n): body\<close>, stopping at the first exception.\<close>

fun repeat :: "nat \<Rightarrow> (world \<Rightarrow> exn + world) \<Rightarrow> world \<Rightarrow> exn + world" where
  "repeat 0 body w = Inr w"
| "repeat (Suc n) body w = (case body w of Inl e \<Rightarrow> Inl e | Inr w' \<Rightarrow> repeat n body w')"

text \<open>The results mapping is a Python dictionary: \<open>results[k] = v\<close> is \<open>AList.update k v results\<close>.\<close>

type_synonym results = "(string \<times> real) list"

subsection \<open>benchmark_ed25519\<close>

definition generate_key_ed25519 :: "results \<Rightarrow> world \<Rightarrow> exn + results \<times> world" where
  "generate_key_ed25519 results w =
     (let (start, w1) = time_time w in
      case repeat ITERATIONS (\<lambda>w. Inr (snd (generate Ed25519 w))) w1 of
        Inl e \<Rightarrow> Inl e
      | Inr w2 \<Rightarrow>
          (let (end_t, w3) = time_time w2 in
           Inr (AList.update ''Ed25519 KeyGen'' ((end_t - start) / real ITERATIONS * 1000000) results,
                w3)))"

definition sign_message_ed25519 :: "results \<Rightarrow> world \<Rightarrow> exn + results \<times> world" where
  "sign_message_ed25519 results w =
     (let (ed_private, w0) = generate Ed25519 w;
          (start, w1) = time_time w0 in
      case repeat ITERATIONS (\<lambda>w. Inr (snd (sign ed_private message w))) w1 of
        Inl e \<Rightarrow> Inl e
      | Inr w2 \<Rightarrow>
          (let (end_t, w3) = time_time w2 in
           Inr (AList.update ''Ed25519 Signing'' ((end_t - start) / real ITERATIONS * 1000000) results,
                w3)))"

definition verify_message_ed25519 :: "results \<Rightarrow> world \<Rightarrow> exn + results \<times> world" where
  "verify_message_ed25519 results w =
     (let (ed_private, w0) = generate Ed25519 w;
          ed_public = public_key ed_private;
          (sig, w0') = sign ed_private message w0;
          (start, w1) = time_time w0' in
      case repeat ITERATIONS (verify ed_public sig message) w1 of
        Inl e \<Rightarrow> Inl e
      | Inr w2 \<Rightarrow>
          (let (end_t, w3) = time_time w2 in
           Inr (AList.update ''Ed25519 Verification''
                  ((end_t - start) / real ITERATIONS * 1000000) results,
                w3)))"

definition benchmark_ed25519 :: "results \<Rightarrow> world \<Rightarrow> exn + results \<times> world" where
  "benchmark_ed25519 results w =
     (case generate_key_ed25519 results w of
        Inl e \<Rightarrow> Inl e
      | Inr (results1, w1) \<Rightarrow>
          (case sign_message_ed25519 results1 w1 of
             Inl e \<Rightarrow> Inl e
           | Inr (results2, w2) \<Rightarrow> verify_message_ed25519 results2 w2))"

subsection \<open>benchmark_secp256k1\<close>

definition generate_key_secp256k1 :: "results \<Rightarrow> world \<Rightarrow> exn + results \<times> world" where
  "generate_key_secp256k1 results w =
     (let (start, w1) = time_time w in
      case repeat ITERATIONS (\<lambda>w. Inr (snd (generate Secp256k1 w))) w1 of
        Inl e \<Rightarrow> Inl e
      | Inr w2 \<Rightarrow>
          (let (end_t, w3) = time_time w2 in
           Inr (AList.update ''secp256k1 KeyGen'' ((end_t - start) / real ITERATIONS * 1000000) results,
                w3)))"

definition sign_message_secp256k1 :: "results \<Rightarrow> world \<Rightarrow> exn + results \<times> world" where
  "sign_message_secp256k1 results w =
     (let (secp_private, w0) = generate Secp256k1 w;
          (start, w1) = time_time w0 in
      case repeat ITERATIONS (\<lambda>w. Inr (snd (sign secp_private message w))) w1 of
        Inl e \<Rightarrow> Inl e
      | Inr w2 \<Rightarrow>
          (let (end_t, w3) = time_time w2 in
           Inr (AList.update ''secp256k1 Signing'' ((end_t - start) / real ITERATIONS * 1000000) results,
                w3)))"

definition verify_message_secp256k1 :: "results \<Rightarrow> world \<Rightarrow> exn + results \<times> world" where
  "verify_message_secp256k1 results w =
     (let (secp_private, w0) = generate Secp256k1 w;
          secp_public = public_key secp_private;
          (sig, w0') = sign secp_private message w0;
          (start, w1) = time_time w0' in
      case repeat ITERATIONS (verify secp_public sig message) w1 of
        Inl e \<Rightarrow> Inl e
      | Inr w2 \<Rightarrow>
          (let (end_t, w3) = time_time w2 in
           Inr (AList.update ''secp256k1 Verification''
                  ((end_t - start) / real ITERATIONS * 1000000) results,
                w3)))"

definition benchmark_secp256k1 :: "results \<Rightarrow> world \<Rightarrow> exn + results \<times> world" where
  "benchmark_secp256k1 results w =
     (case generate_key_secp256k1 results w of
        Inl e \<Rightarrow> Inl e
      | Inr (results1, w1) \<Rightarrow>
          (case sign_message_secp256k1 results1 w1 of
             Inl e \<Rightarrow> Inl e
           | Inr (results2, w2) \<Rightarrow> verify_message_secp256k1 results2 w2))"

text \<open>
  The first three statements of the runner's \<open>main\<close>: the mapping that is then printed and
  written to the results file.
\<close>

definition main_results :: "world \<Rightarrow> exn + results \<times> world" where
  "main_results w =
     (case benchmark_ed25519 [] w of
        Inl e \<Rightarrow> Inl e
      | Inr (results, w1) \<Rightarrow> benchmark_secp256k1 results w1)"

section \<open>Predicates and example data of the properties\<close>

text \<open>A time cell that holds a positive number.\<close>

fun positive_numeric :: "cell \<Rightarrow> bool" where
  "positive_numeric (Num v) = (0 < v)"
| "positive_numeric (Str s) = False"
| "positive_numeric (NumStr s v) = False"

text \<open>
  A row of a results table: the operation label under \<open>Operation\<close> and the cell \<open>c\<close> under the
  time column.
\<close>

definition results_row :: "string \<Rightarrow> cell \<Rightarrow> row" where
  "results_row op c = (\<lambda>col. if col = ''Operation'' then Str op else c)"

text \<open>The table of the example scenario.\<close>

definition example_table :: dataframe where
  "example_table =
     \<lparr>columns = [''Operation'', time_column],
      rows = [results_row ''Ed25519 KeyGen'' (Num 12.3),
              results_row ''Ed25519 Signing'' (Num 8.1),
              results_row ''Ed25519 Verification'' (Num 15.4),
              results_row ''secp256k1 KeyGen'' (Num 110.2),
              results_row ''secp256k1 Signing'' (Num 95.7),
              results_row ''secp256k1 Verification'' (Num 140.9)]\<rparr>"

text \<open>A time cell that \<open>float()\<close> converts.\<close>

fun numeric :: "cell \<Rightarrow> bool" where
  "numeric (Num v) = True"
| "numeric (NumStr s v) = True"
| "numeric (Str s) = False"


text \<open>A plotting library that never fails.\<close>

definition plt_ok :: plt where
  "plt_ok = (\<lambda>fig. Saved_And_Shown)"

text \<open>A file system that holds one file, at the path of the results file.\<close>

definition disk_with :: "disk_file \<Rightarrow> disk" where
  "disk_with f = [csv_file \<mapsto> f]"


text \<open>A results file that has the header row and no data row.\<close>

definition header_only_table :: dataframe where
  "header_only_table = \<lparr>columns = [''Operation'', time_column], rows = []\<rparr>"



text \<open>A second row for the label \<open>Ed25519 KeyGen\<close>.\<close>

definition duplicate_row :: row where
  "duplicate_row = results_row ''Ed25519 KeyGen'' (Num 99)"

text \<open>
  The events of the three phases of a scheme's benchmark: \<open>generated s k n\<close> are the generations
  of the keys \<open>k, \<dots>, k + n - 1\<close>; a clock reading opens and closes each timed loop.
\<close>

definition generated :: "scheme \<Rightarrow> nat \<Rightarrow> nat \<Rightarrow> event list" where
  "generated s k n = map (\<lambda>i. Generate (PrivateKey s i)) [k..<k + n]"

definition keygen_phase :: "scheme \<Rightarrow> nat \<Rightarrow> event list" where
  "keygen_phase s n = [Clock_Read] @ generated s n ITERATIONS @ [Clock_Read]"

definition signing_phase :: "private_key \<Rightarrow> event list" where
  "signing_phase k = [Generate k, Clock_Read] @ replicate ITERATIONS (Sign k message) @ [Clock_Read]"

definition verification_phase :: "private_key \<Rightarrow> event list" where
  "verification_phase k =
     [Generate k, Sign k message, Clock_Read]
       @ replicate ITERATIONS (Verify (public_key k) (Signature k message) message)
       @ [Clock_Read]"

text \<open>
  The time per operation that a timed loop stores, when its first clock reading is the \<open>n\<close>-th
  after those of \<open>w\<close>.
\<close>

definition timing :: "world \<Rightarrow> nat \<Rightarrow> real" where
  "timing w n = (clock w (clock_reads w + n + 1) - clock w (clock_reads w + n))
                  / real ITERATIONS * 1000000"

text \<open>A process that has read no clock and generated no key; its clock counts seconds.\<close>

definition fresh_world :: world where
  "fresh_world = \<lparr>clock = (\<lambda>n. real n), clock_reads = 0, keys_made = 0, trace = []\<rparr>"

section \<open>Properties of the report generator\<close>

subsection \<open>The extraction loop\<close>

lemma time_column_neq: "time_column \<noteq> ''Operation''" "''Operation'' \<noteq> time_column"
  by (simp_all add: time_column_def)

lemma extract_example:
  "extract_benchmark_times example_table = Inr ([12.3, 8.1, 15.4], [110.2, 95.7, 140.9])"
  by (simp add: extract_benchmark_times_def get_times_for_curve_def operations_ed25519_def
      operations_secp256k1_def matching_rows_def example_table_def results_row_def time_column_neq)

lemma filter_find_None: "find P xs = None \<Longrightarrow> filter P xs = []"
  by (induction xs) (auto split: if_splits)

lemma filter_find_Some: "find P xs = Some x \<Longrightarrow> \<exists>ys. filter P xs = x # ys"
  by (induction xs) (auto split: if_splits)

lemma get_times_loop_step:
  "get_times_loop df (op # ops) acc =
     (if ''Operation'' \<notin> set (columns df) then Inl (KeyError (py_repr ''Operation''))
      else if time_column \<notin> set (columns df) then Inl (KeyError (py_repr time_column))
      else case find (\<lambda>r. cell_eq_str (r ''Operation'') op) (rows df) of
             None \<Rightarrow> Inl (ValueError (''No data found for operation: '' @ op))
           | Some r \<Rightarrow> (case py_float (r time_column) of
                          Inl e \<Rightarrow> Inl e
                        | Inr t \<Rightarrow> get_times_loop df ops (acc @ [t])))"
proof -
  let ?P = "\<lambda>r. cell_eq_str (r ''Operation'') op"
  show ?thesis
  proof (cases "find ?P (rows df)")
    case None
    then have "filter ?P (rows df) = []" by (rule filter_find_None)
    with None show ?thesis by (simp add: matching_rows_def)
  next
    case (Some r)
    from filter_find_Some [OF Some] obtain rs where "filter ?P (rows df) = r # rs" by auto
    with Some show ?thesis by (simp add: matching_rows_def)
  qed
qed

lemma get_times_loop_first_match:
  "get_times_loop df ops acc = Inr res \<Longrightarrow>
     \<exists>ts. res = acc @ ts \<and> length ts = length ops \<and>
       (\<forall>i < length ops. \<exists>r. find (\<lambda>r. cell_eq_str (r ''Operation'') (ops ! i)) (rows df) = Some r
           \<and> py_float (r time_column) = Inr (ts ! i))"
proof (induction ops arbitrary: acc)
  case Nil
  then show ?case by simp
next
  case (Cons op ops)
  from Cons.prems obtain r t where
    r: "find (\<lambda>r. cell_eq_str (r ''Operation'') op) (rows df) = Some r"
    and t: "py_float (r time_column) = Inr t"
    and rest: "get_times_loop df ops (acc @ [t]) = Inr res"
    unfolding get_times_loop_step by (auto split: if_splits option.splits sum.splits)
  from Cons.IH [OF rest] obtain ts where
    ts: "res = (acc @ [t]) @ ts" "length ts = length ops"
        "\<forall>i < length ops. \<exists>r. find (\<lambda>r. cell_eq_str (r ''Operation'') (ops ! i)) (rows df) = Some r
           \<and> py_float (r time_column) = Inr (ts ! i)"
    by blast
  have "\<forall>i < length (op # ops).
          \<exists>r. find (\<lambda>r. cell_eq_str (r ''Operation'') ((op # ops) ! i)) (rows df) = Some r
           \<and> py_float (r time_column) = Inr ((t # ts) ! i)"
  proof (intro allI impI)
    fix i assume "i < length (op # ops)"
    then show "\<exists>r. find (\<lambda>r. cell_eq_str (r ''Operation'') ((op # ops) ! i)) (rows df) = Some r
           \<and> py_float (r time_column) = Inr ((t # ts) ! i)"
      using r t ts(3) by (cases i) auto
  qed
  with ts(1,2) show ?case by (intro exI [of _ "t # ts"]) simp
qed

lemma find_matching:
  assumes "r \<in> set rs" "P r"
  shows "\<exists>r'. find P rs = Some r' \<and> r' \<in> set rs \<and> P r'"
proof (cases "find P rs")
  case None
  with assms show ?thesis by (auto simp: find_None_iff)
next
  case (Some r')
  then show ?thesis by (auto simp: find_Some_iff)
qed

text \<open>With both columns and every label present, the loop returns or float() raises.\<close>

lemma get_times_loop_validated:
  assumes cols: "''Operation'' \<in> set (columns df)" "time_column \<in> set (columns df)"
    and labels: "\<forall>op \<in> set ops. \<exists>r \<in> set (rows df). cell_eq_str (r ''Operation'') op"
  shows "(\<exists>res. get_times_loop df ops acc = Inr res) \<or>
         (\<exists>r \<in> set (rows df). \<exists>s. r time_column = Str s \<and>
            get_times_loop df ops acc =
              Inl (ValueError (''could not convert string to float: '' @ py_repr s)))"
  using labels
proof (induction ops arbitrary: acc)
  case Nil
  then show ?case by simp
next
  case (Cons op ops)
  from Cons.prems obtain r0 where "r0 \<in> set (rows df)" "cell_eq_str (r0 ''Operation'') op" by auto
  from find_matching [of r0 "rows df" "\<lambda>r. cell_eq_str (r ''Operation'') op", OF this] obtain r where
    r: "find (\<lambda>r. cell_eq_str (r ''Operation'') op) (rows df) = Some r" "r \<in> set (rows df)"
    by blast
  show ?case
  proof (cases "r time_column")
    case (Str s)
    with r cols show ?thesis unfolding get_times_loop_step by auto
  next
    case (Num v)
    from Cons.IH [of "acc @ [v]"] Cons.prems Num r cols show ?thesis
      unfolding get_times_loop_step by auto
  next
    case (NumStr s v)
    from Cons.IH [of "acc @ [v]"] Cons.prems NumStr r cols show ?thesis
      unfolding get_times_loop_step by auto
  qed
qed

lemma find_SomeD: "find P xs = Some x \<Longrightarrow> x \<in> set xs \<and> P x"
  by (induction xs) (auto split: if_splits)

lemma get_times_for_curve_numeric:
  assumes cols: "''Operation'' \<in> set (columns df)" "time_column \<in> set (columns df)"
    and labels: "\<forall>op \<in> set ops. \<exists>r \<in> set (rows df). cell_eq_str (r ''Operation'') op"
    and vals: "\<forall>r \<in> set (rows df). \<exists>t. py_float (r time_column) = Inr t"
  shows "\<exists>ts. get_times_for_curve df ops = Inr ts \<and> length ts = length ops \<and>
           (\<forall>i < length ops. \<exists>r \<in> set (rows df). cell_eq_str (r ''Operation'') (ops ! i)
               \<and> py_float (r time_column) = Inr (ts ! i))"
proof -
  have "\<not> (\<exists>r \<in> set (rows df). \<exists>s. r time_column = Str s)"
    using vals by fastforce
  with get_times_loop_validated [OF cols labels, of "[]"]
  obtain res where res: "get_times_loop df ops [] = Inr res" by blast
  from get_times_loop_first_match [OF res] obtain ts where
    ts: "res = ts" "length ts = length ops"
      "\<forall>i < length ops. \<exists>r. find (\<lambda>r. cell_eq_str (r ''Operation'') (ops ! i)) (rows df) = Some r
           \<and> py_float (r time_column) = Inr (ts ! i)"
    by auto
  have "\<forall>i < length ops. \<exists>r \<in> set (rows df). cell_eq_str (r ''Operation'') (ops ! i)
               \<and> py_float (r time_column) = Inr (ts ! i)"
  proof (intro allI impI)
    fix i assume "i < length ops"
    with ts(3) obtain r where
      r: "find (\<lambda>r. cell_eq_str (r ''Operation'') (ops ! i)) (rows df) = Some r"
         "py_float (r time_column) = Inr (ts ! i)" by blast
    from find_SomeD [OF r(1)] r(2)
    show "\<exists>r \<in> set (rows df). cell_eq_str (r ''Operation'') (ops ! i)
               \<and> py_float (r time_column) = Inr (ts ! i)" by blast
  qed
  with res ts(1,2) show ?thesis by (simp add: get_times_for_curve_def)
qed

text \<open>
  C1. For a results table that has the two columns, whose operation column holds exactly the six
  fixed labels, each once, and whose time cells are positive numbers, extraction succeeds and
  returns two lists of three times, the Ed25519 one and the secp256k1 one, each in the order
  KeyGen, Signing, Verification, and each entry is the time of the table's row with that label.
  For the table of the example scenario the lists are [12.3, 8.1, 15.4] and
  [110.2, 95.7, 140.9].
\<close>

theorem extract_six_labels:
  assumes cols: "''Operation'' \<in> set (columns df)" "time_column \<in> set (columns df)"
    and labels: "distinct (map (\<lambda>r. r ''Operation'') (rows df))"
                "set (map (\<lambda>r. r ''Operation'') (rows df)) = Str ` set required_operations"
    and vals: "\<forall>r \<in> set (rows df). positive_numeric (r time_column)"
  shows "(\<exists>ed_times secp_times.
            extract_benchmark_times df = Inr (ed_times, secp_times) \<and>
            length ed_times = 3 \<and> length secp_times = 3 \<and>
            (\<forall>i < 3. \<exists>r \<in> set (rows df).
                r ''Operation'' = Str (operations_ed25519 ! i) \<and> r time_column = Num (ed_times ! i)) \<and>
            (\<forall>i < 3. \<exists>r \<in> set (rows df).
                r ''Operation'' = Str (operations_secp256k1 ! i) \<and> r time_column = Num (secp_times ! i)))
         \<and> extract_benchmark_times example_table = Inr ([12.3, 8.1, 15.4], [110.2, 95.7, 140.9])"
proof -
  have str: "\<And>r. r \<in> set (rows df) \<Longrightarrow> \<exists>l. r ''Operation'' = Str l"
    using labels(2) by auto
  have present: "\<And>op. op \<in> set required_operations \<Longrightarrow>
                   \<exists>r \<in> set (rows df). cell_eq_str (r ''Operation'') op"
  proof -
    fix op assume "op \<in> set required_operations"
    then have "Str op \<in> set (map (\<lambda>r. r ''Operation'') (rows df))" using labels(2) by simp
    then obtain r where "r \<in> set (rows df)" "r ''Operation'' = Str op" by auto
    then show "\<exists>r \<in> set (rows df). cell_eq_str (r ''Operation'') op" by force
  qed
  have fl: "\<forall>r \<in> set (rows df). \<exists>t. py_float (r time_column) = Inr t"
    using vals by (metis positive_numeric.elims(2) py_float.simps(1))
  have tidy: "\<And>ops ts. \<forall>i < length ops. \<exists>r \<in> set (rows df). cell_eq_str (r ''Operation'') (ops ! i)
               \<and> py_float (r time_column) = Inr (ts ! i) \<Longrightarrow>
            \<forall>i < length ops. \<exists>r \<in> set (rows df). r ''Operation'' = Str (ops ! i)
               \<and> r time_column = Num (ts ! i)"
  proof (intro allI impI)
    fix ops :: "string list" and ts :: "real list" and i
    assume h: "\<forall>i < length ops. \<exists>r \<in> set (rows df). cell_eq_str (r ''Operation'') (ops ! i)
               \<and> py_float (r time_column) = Inr (ts ! i)" and i: "i < length ops"
    then obtain r where r: "r \<in> set (rows df)" "cell_eq_str (r ''Operation'') (ops ! i)"
      "py_float (r time_column) = Inr (ts ! i)" by blast
    from str [OF r(1)] r(2) have "r ''Operation'' = Str (ops ! i)" by auto
    moreover from vals r(1) have "positive_numeric (r time_column)" by blast
    with r(3) have "r time_column = Num (ts ! i)" by (cases "r time_column") auto
    ultimately show "\<exists>r \<in> set (rows df). r ''Operation'' = Str (ops ! i)
               \<and> r time_column = Num (ts ! i)" using r(1) by blast
  qed
  have "\<forall>op \<in> set operations_ed25519. \<exists>r \<in> set (rows df). cell_eq_str (r ''Operation'') op"
    using present by (simp add: operations_ed25519_def required_operations_def)
  from get_times_for_curve_numeric [OF cols this fl] obtain ed where
    ed: "get_times_for_curve df operations_ed25519 = Inr ed" "length ed = length operations_ed25519"
      "\<forall>i < length operations_ed25519. \<exists>r \<in> set (rows df).
          cell_eq_str (r ''Operation'') (operations_ed25519 ! i)
               \<and> py_float (r time_column) = Inr (ed ! i)" by blast
  have "\<forall>op \<in> set operations_secp256k1. \<exists>r \<in> set (rows df). cell_eq_str (r ''Operation'') op"
    using present by (simp add: operations_secp256k1_def required_operations_def)
  from get_times_for_curve_numeric [OF cols this fl] obtain secp where
    secp: "get_times_for_curve df operations_secp256k1 = Inr secp"
      "length secp = length operations_secp256k1"
      "\<forall>i < length operations_secp256k1. \<exists>r \<in> set (rows df).
          cell_eq_str (r ''Operation'') (operations_secp256k1 ! i)
               \<and> py_float (r time_column) = Inr (secp ! i)" by blast
  have l3: "length operations_ed25519 = 3" "length operations_secp256k1 = 3"
    by (simp_all add: operations_ed25519_def operations_secp256k1_def)
  have "extract_benchmark_times df = Inr (ed, secp)"
    using ed(1) secp(1) by (simp add: extract_benchmark_times_def)
  moreover have "length ed = 3" "length secp = 3" using ed(2) secp(2) l3 by simp_all
  moreover have "\<forall>i < 3. \<exists>r \<in> set (rows df).
                r ''Operation'' = Str (operations_ed25519 ! i) \<and> r time_column = Num (ed ! i)"
    using tidy [OF ed(3)] l3 by simp
  moreover have "\<forall>i < 3. \<exists>r \<in> set (rows df).
                r ''Operation'' = Str (operations_secp256k1 ! i) \<and> r time_column = Num (secp ! i)"
    using tidy [OF secp(3)] l3 by simp
  ultimately have "\<exists>ed_times secp_times.
            extract_benchmark_times df = Inr (ed_times, secp_times) \<and>
            length ed_times = 3 \<and> length secp_times = 3 \<and>
            (\<forall>i < 3. \<exists>r \<in> set (rows df).
                r ''Operation'' = Str (operations_ed25519 ! i) \<and> r time_column = Num (ed_times ! i)) \<and>
            (\<forall>i < 3. \<exists>r \<in> set (rows df).
                r ''Operation'' = Str (operations_secp256k1 ! i) \<and> r time_column = Num (secp_times ! i))"
    by (intro exI [of _ ed] exI [of _ secp] conjI)
  then show ?thesis using extract_example by (intro conjI)
qed

theorem extract_six_labels_witness:
  "''Operation'' \<in> set (columns example_table) \<and> time_column \<in> set (columns example_table) \<and>
   distinct (map (\<lambda>r. r ''Operation'') (rows example_table)) \<and>
   set (map (\<lambda>r. r ''Operation'') (rows example_table)) = Str ` set required_operations \<and>
   list_all (\<lambda>r. positive_numeric (r time_column)) (rows example_table) \<and>
   (\<exists>ed_times secp_times.
      extract_benchmark_times example_table = Inr (ed_times, secp_times) \<and>
      length ed_times = 3 \<and> length secp_times = 3 \<and>
      (\<forall>i < 3. \<exists>r \<in> set (rows example_table).
          r ''Operation'' = Str (operations_ed25519 ! i) \<and> r time_column = Num (ed_times ! i)) \<and>
      (\<forall>i < 3. \<exists>r \<in> set (rows example_table).
          r ''Operation'' = Str (operations_secp256k1 ! i) \<and> r time_column = Num (secp_times ! i)))"
proof -
  have c1: "''Operation'' \<in> set (columns example_table)"
    and c2: "time_column \<in> set (columns example_table)"
    by (simp_all add: example_table_def)
  have ops: "map (\<lambda>r. r ''Operation'') (rows example_table) = map Str required_operations"
    by (simp add: example_table_def results_row_def required_operations_def)
  have d: "distinct (map (\<lambda>r. r ''Operation'') (rows example_table))"
    unfolding ops by (simp add: required_operations_def)
  have s: "set (map (\<lambda>r. r ''Operation'') (rows example_table)) = Str ` set required_operations"
    unfolding ops by simp
  have v: "\<forall>r \<in> set (rows example_table). positive_numeric (r time_column)"
    by (simp add: example_table_def results_row_def time_column_neq)
  from extract_six_labels [OF c1 c2 d s v] have
    "\<exists>ed_times secp_times.
      extract_benchmark_times example_table = Inr (ed_times, secp_times) \<and>
      length ed_times = 3 \<and> length secp_times = 3 \<and>
      (\<forall>i < 3. \<exists>r \<in> set (rows example_table).
          r ''Operation'' = Str (operations_ed25519 ! i) \<and> r time_column = Num (ed_times ! i)) \<and>
      (\<forall>i < 3. \<exists>r \<in> set (rows example_table).
          r ''Operation'' = Str (operations_secp256k1 ! i) \<and> r time_column = Num (secp_times ! i))"
    by (rule conjunct1)
  moreover have "list_all (\<lambda>r. positive_numeric (r time_column)) (rows example_table)"
    using v by (simp add: list_all_iff)
  ultimately show ?thesis using c1 c2 d s by (intro conjI)
qed

subsection \<open>Loading the results file\<close>



lemma load_and_validate_data_Table:
  assumes "disk csv_path = Some (Table df)"
  shows "load_and_validate_data disk csv_path =
     (if [col \<leftarrow> required_columns. col \<notin> set (columns df)] \<noteq> [] then
        Inl (ValueError (''Missing required columns: ''
               @ py_repr_list [col \<leftarrow> required_columns. col \<notin> set (columns df)]))
      else if [op \<leftarrow> required_operations.
                 \<not> (\<exists>r \<in> set (rows df). cell_eq_str (r ''Operation'') op)] \<noteq> [] then
        Inl (ValueError (''Missing required operations: ''
               @ py_repr_list [op \<leftarrow> required_operations.
                    \<not> (\<exists>r \<in> set (rows df). cell_eq_str (r ''Operation'') op)]))
      else Inr df)"
  using assms
  by (simp add: load_and_validate_data_def validate_data_def pd_read_csv_def Let_def)

lemma load_and_validate_data_None:
  "disk csv_path = None \<Longrightarrow>
   load_and_validate_data disk csv_path =
     Inl (FileNotFoundError (''Benchmark results file not found: '' @ csv_path))"
  by (simp add: load_and_validate_data_def validate_data_def pd_read_csv_def)

lemma load_and_validate_data_Empty_File:
  "disk csv_path = Some Empty_File \<Longrightarrow>
   load_and_validate_data disk csv_path = Inl (ValueError ''CSV file is empty'')"
  by (simp add: load_and_validate_data_def validate_data_def pd_read_csv_def)


lemma load_and_validate_data_InrI:
  assumes "disk csv_path = Some (Table df)" "''Operation'' \<in> set (columns df)"
    "time_column \<in> set (columns df)"
    "\<forall>op \<in> set required_operations. \<exists>r \<in> set (rows df). cell_eq_str (r ''Operation'') op"
  shows "load_and_validate_data disk csv_path = Inr df"
proof -
  have "[col \<leftarrow> required_columns. col \<notin> set (columns df)] = []"
    using assms(2,3) by (simp add: required_columns_def)
  moreover have "[op \<leftarrow> required_operations.
                 \<not> (\<exists>r \<in> set (rows df). cell_eq_str (r ''Operation'') op)] = []"
    using assms(4) by (simp only: filter_empty_conv) blast
  ultimately show ?thesis
    using load_and_validate_data_Table [of disk csv_path df] assms(1) by simp
qed

subsection \<open>main and the exit status\<close>

lemma main_load_fails: "load_and_validate_data disk csv_file = Inl e \<Longrightarrow> main disk plt = (False, disk)"
  by (simp add: main_def)

lemma exit_status_failed: "main disk plt = (False, disk') \<Longrightarrow> exit_status disk plt = 1"
  by (simp add: exit_status_def)


lemma main_succeeds:
  assumes "load_and_validate_data disk csv_file = Inr df"
    and "extract_benchmark_times df = Inr (ed_times, secp_times)"
    and "plt \<lparr>ed_bars = ed_times, secp_bars = secp_times,
              details_block = (if load_environment_details disk env_file \<noteq> []
                               then Some (load_environment_details disk env_file) else None)\<rparr>
           = Saved_And_Shown"
  shows "main disk plt =
           (True, disk(output_file \<mapsto> Image \<lparr>ed_bars = ed_times, secp_bars = secp_times,
              details_block = (if load_environment_details disk env_file \<noteq> []
                               then Some (load_environment_details disk env_file) else None)\<rparr>))"
  using assms by (simp add: main_def create_benchmark_chart_def Let_def)



lemma example_table_valid:
  "''Operation'' \<in> set (columns example_table)"
  "time_column \<in> set (columns example_table)"
  "\<forall>op \<in> set required_operations. \<exists>r \<in> set (rows example_table). cell_eq_str (r ''Operation'') op"
  "\<forall>r \<in> set (rows example_table). numeric (r time_column)"
  by (simp_all add: example_table_def required_operations_def results_row_def time_column_neq)

lemma load_example:
  "load_and_validate_data (disk_with (Table example_table)) csv_file = Inr example_table"
  by (rule load_and_validate_data_InrI) (simp_all add: disk_with_def example_table_valid)




text \<open>
  C4. For a path that holds no file, \<open>load_and_validate_data\<close> raises FileNotFoundError with
  the message \<open>Benchmark results file not found: \<close> followed by the path. When the path is
  the one \<open>main\<close> reads, \<open>main\<close> catches the exception and returns \<open>False\<close>, and the script
  exits with status 1. A run in which \<open>main\<close> returns \<open>True\<close> exits with status 0.
\<close>

theorem missing_results_file:
  assumes "disk csv_path = None"
  shows "load_and_validate_data disk csv_path =
           Inl (FileNotFoundError (''Benchmark results file not found: '' @ csv_path))
         \<and> (csv_path = csv_file \<longrightarrow> main disk plt = (False, disk) \<and> exit_status disk plt = 1)
         \<and> (fst (main disk' plt') \<longrightarrow> exit_status disk' plt' = 0)"
proof -
  have "load_and_validate_data disk csv_path =
           Inl (FileNotFoundError (''Benchmark results file not found: '' @ csv_path))"
    using assms by (rule load_and_validate_data_None)
  moreover from this have "csv_path = csv_file \<longrightarrow> main disk plt = (False, disk)"
    using main_load_fails by auto
  moreover from this have "csv_path = csv_file \<longrightarrow> exit_status disk plt = 1"
    using exit_status_failed by auto
  moreover have "fst (main disk' plt') \<longrightarrow> exit_status disk' plt' = 0"
    by (simp add: exit_status_def)
  ultimately show ?thesis by blast
qed

theorem missing_results_file_witness:
  "load_and_validate_data Map.empty csv_file =
      Inl (FileNotFoundError (''Benchmark results file not found: '' @ csv_file))
   \<and> main Map.empty plt_ok = (False, Map.empty)
   \<and> exit_status Map.empty plt_ok = 1
   \<and> fst (main (disk_with (Table example_table)) plt_ok)
   \<and> exit_status (disk_with (Table example_table)) plt_ok = 0"
proof -
  have n: "(Map.empty :: disk) csv_file = None" by simp
  have ok: "fst (main (disk_with (Table example_table)) plt_ok)"
    using main_succeeds [of "disk_with (Table example_table)" example_table _ _ plt_ok,
        OF load_example extract_example]
    by (simp add: plt_ok_def)
  from missing_results_file [of Map.empty csv_file plt_ok "disk_with (Table example_table)" plt_ok,
      OF n] ok
  show ?thesis by simp
qed

text \<open>
  C5. For an empty results file, of zero bytes or with a header row and no data row,
  \<open>load_and_validate_data\<close> raises ValueError (malformed input), never FileNotFoundError
  and never another exception; for zero bytes the message is \<open>CSV file is empty\<close>. When the
  file is the one \<open>main\<close> reads, \<open>main\<close> returns \<open>False\<close> and the script exits with status 1.
\<close>

theorem empty_results_file:
  assumes "disk csv_path = Some Empty_File \<or>
           (\<exists>df. disk csv_path = Some (Table df) \<and> rows df = [])"
  shows "(\<exists>msg. load_and_validate_data disk csv_path = Inl (ValueError msg))
         \<and> (disk csv_path = Some Empty_File \<longrightarrow>
              load_and_validate_data disk csv_path = Inl (ValueError ''CSV file is empty''))
         \<and> (csv_path = csv_file \<longrightarrow> main disk plt = (False, disk) \<and> exit_status disk plt = 1)"
proof -
  have err: "\<exists>msg. load_and_validate_data disk csv_path = Inl (ValueError msg)"
    using assms
  proof
    assume "disk csv_path = Some Empty_File"
    then show ?thesis by (simp add: load_and_validate_data_Empty_File)
  next
    assume "\<exists>df. disk csv_path = Some (Table df) \<and> rows df = []"
    then obtain df where df: "disk csv_path = Some (Table df)" "rows df = []" by blast
    have "[op \<leftarrow> required_operations.
             \<not> (\<exists>r \<in> set (rows df). cell_eq_str (r ''Operation'') op)] = required_operations"
      using df(2) by simp
    moreover have "required_operations \<noteq> []" by (simp add: required_operations_def)
    ultimately show ?thesis
      using load_and_validate_data_Table [of disk csv_path df] df(1) by auto
  qed
  moreover have "disk csv_path = Some Empty_File \<longrightarrow>
              load_and_validate_data disk csv_path = Inl (ValueError ''CSV file is empty'')"
    by (simp add: load_and_validate_data_Empty_File)
  moreover from err have "csv_path = csv_file \<longrightarrow> main disk plt = (False, disk)"
    using main_load_fails by auto
  moreover from this have "csv_path = csv_file \<longrightarrow> exit_status disk plt = 1"
    using exit_status_failed by auto
  ultimately show ?thesis by blast
qed

theorem empty_results_file_witness:
  "load_and_validate_data (disk_with Empty_File) csv_file = Inl (ValueError ''CSV file is empty'')
   \<and> main (disk_with Empty_File) plt_ok = (False, disk_with Empty_File)
   \<and> exit_status (disk_with Empty_File) plt_ok = 1
   \<and> (\<exists>msg. load_and_validate_data (disk_with (Table header_only_table)) csv_file =
               Inl (ValueError msg))
   \<and> main (disk_with (Table header_only_table)) plt_ok = (False, disk_with (Table header_only_table))
   \<and> exit_status (disk_with (Table header_only_table)) plt_ok = 1"
proof -
  have z: "disk_with Empty_File csv_file = Some Empty_File \<or>
           (\<exists>df. disk_with Empty_File csv_file = Some (Table df) \<and> rows df = [])"
    by (simp add: disk_with_def)
  have h: "disk_with (Table header_only_table) csv_file = Some Empty_File \<or>
           (\<exists>df. disk_with (Table header_only_table) csv_file = Some (Table df) \<and> rows df = [])"
    by (simp add: disk_with_def header_only_table_def)
  have z': "disk_with Empty_File csv_file = Some Empty_File" by (simp add: disk_with_def)
  from empty_results_file [of "disk_with Empty_File" csv_file plt_ok, OF z]
       empty_results_file [of "disk_with (Table header_only_table)" csv_file plt_ok, OF h] z'
  show ?thesis by simp
qed



subsection \<open>Extraction from a validated table\<close>





subsection \<open>Rows with the same label\<close>

lemma find_append_cases:
  "find P (xs @ ys) = (case find P xs of None \<Rightarrow> find P ys | Some x \<Rightarrow> Some x)"
  by (induction xs) auto

lemma find_later_duplicate:
  assumes "r \<in> set pre" "P d \<longrightarrow> P r"
  shows "find P (pre @ d # post) = find P (pre @ post)"
proof (cases "P d")
  case True
  with assms have "find P pre \<noteq> None" by (auto simp: find_None_iff)
  then show ?thesis by (auto simp: find_append_cases)
next
  case False
  then show ?thesis by (simp add: find_append_cases split: option.splits)
qed

lemma get_times_loop_same_first_matches:
  assumes "columns df' = columns df"
    and "\<And>op. find (\<lambda>r. cell_eq_str (r ''Operation'') op) (rows df')
             = find (\<lambda>r. cell_eq_str (r ''Operation'') op) (rows df)"
  shows "get_times_loop df' ops acc = get_times_loop df ops acc"
proof (induction ops arbitrary: acc)
  case Nil
  then show ?case by simp
next
  case (Cons op ops)
  show ?case unfolding get_times_loop_step assms Cons.IH ..
qed

text \<open>
  C9. When a row \<open>d\<close> of a table comes after a row with the same operation cell, extraction
  gives what it gives for the table without \<open>d\<close>: the later row is ignored and causes no
  error. Whenever extraction returns, each time is that of the first row, in file order,
  whose operation cell is the label.
\<close>

theorem first_matching_row_wins:
  assumes dup: "r \<in> set pre" "r ''Operation'' = d ''Operation''"
  shows "extract_benchmark_times (df\<lparr>rows := pre @ d # post\<rparr>)
           = extract_benchmark_times (df\<lparr>rows := pre @ post\<rparr>)
         \<and> (\<forall>ed_times secp_times.
               extract_benchmark_times (df\<lparr>rows := pre @ d # post\<rparr>) = Inr (ed_times, secp_times)
               \<longrightarrow> (\<forall>i < 3. \<exists>r'.
                      find (\<lambda>r. cell_eq_str (r ''Operation'') (operations_ed25519 ! i))
                        (pre @ d # post) = Some r'
                      \<and> py_float (r' time_column) = Inr (ed_times ! i))
                 \<and> (\<forall>i < 3. \<exists>r'.
                      find (\<lambda>r. cell_eq_str (r ''Operation'') (operations_secp256k1 ! i))
                        (pre @ d # post) = Some r'
                      \<and> py_float (r' time_column) = Inr (secp_times ! i)))"
proof -
  let ?dup = "df\<lparr>rows := pre @ d # post\<rparr>" and ?dedup = "df\<lparr>rows := pre @ post\<rparr>"
  have same: "\<And>op. find (\<lambda>r. cell_eq_str (r ''Operation'') op) (pre @ d # post)
                 = find (\<lambda>r. cell_eq_str (r ''Operation'') op) (pre @ post)"
  proof -
    fix op
    have "cell_eq_str (d ''Operation'') op \<longrightarrow> cell_eq_str (r ''Operation'') op"
      using dup(2) by simp
    from find_later_duplicate [of r pre "\<lambda>r. cell_eq_str (r ''Operation'') op" d post, OF dup(1) this]
    show "find (\<lambda>r. cell_eq_str (r ''Operation'') op) (pre @ d # post)
                 = find (\<lambda>r. cell_eq_str (r ''Operation'') op) (pre @ post)" .
  qed
  have loop: "\<And>ops. get_times_for_curve ?dup ops = get_times_for_curve ?dedup ops"
    unfolding get_times_for_curve_def
    by (rule get_times_loop_same_first_matches) (simp_all add: same)
  have eq: "extract_benchmark_times ?dup = extract_benchmark_times ?dedup"
    unfolding extract_benchmark_times_def loop ..
  have l3: "length operations_ed25519 = 3" "length operations_secp256k1 = 3"
    by (simp_all add: operations_ed25519_def operations_secp256k1_def)
  have first: "\<forall>ed_times secp_times.
               extract_benchmark_times ?dup = Inr (ed_times, secp_times)
               \<longrightarrow> (\<forall>i < 3. \<exists>r'.
                      find (\<lambda>r. cell_eq_str (r ''Operation'') (operations_ed25519 ! i))
                        (pre @ d # post) = Some r'
                      \<and> py_float (r' time_column) = Inr (ed_times ! i))
                 \<and> (\<forall>i < 3. \<exists>r'.
                      find (\<lambda>r. cell_eq_str (r ''Operation'') (operations_secp256k1 ! i))
                        (pre @ d # post) = Some r'
                      \<and> py_float (r' time_column) = Inr (secp_times ! i))"
  proof (intro allI impI)
    fix ed_times secp_times
    assume "extract_benchmark_times ?dup = Inr (ed_times, secp_times)"
    then have ed: "get_times_loop ?dup operations_ed25519 [] = Inr ed_times"
      and secp: "get_times_loop ?dup operations_secp256k1 [] = Inr secp_times"
      by (auto simp: extract_benchmark_times_def get_times_for_curve_def split: sum.splits)
    from get_times_loop_first_match [OF ed] get_times_loop_first_match [OF secp]
    show "(\<forall>i < 3. \<exists>r'.
                      find (\<lambda>r. cell_eq_str (r ''Operation'') (operations_ed25519 ! i))
                        (pre @ d # post) = Some r'
                      \<and> py_float (r' time_column) = Inr (ed_times ! i))
                 \<and> (\<forall>i < 3. \<exists>r'.
                      find (\<lambda>r. cell_eq_str (r ''Operation'') (operations_secp256k1 ! i))
                        (pre @ d # post) = Some r'
                      \<and> py_float (r' time_column) = Inr (secp_times ! i))"
      using l3 by auto
  qed
  from eq first show ?thesis by (intro conjI)
qed

theorem first_matching_row_wins_witness:
  "extract_benchmark_times (example_table\<lparr>rows := rows example_table @ [duplicate_row]\<rparr>)
     = Inr ([12.3, 8.1, 15.4], [110.2, 95.7, 140.9])"
proof -
  have r: "hd (rows example_table) \<in> set (rows example_table)"
    by (simp add: example_table_def)
  have l: "hd (rows example_table) ''Operation'' = duplicate_row ''Operation''"
    by (simp add: example_table_def duplicate_row_def results_row_def)
  have e: "example_table\<lparr>rows := rows example_table @ []\<rparr> = example_table" by simp
  from first_matching_row_wins [where r = "hd (rows example_table)" and pre = "rows example_table"
      and d = duplicate_row and df = example_table and post = "[]", OF r l]
  show ?thesis unfolding e extract_example by simp
qed

section \<open>Properties of the benchmark runner\<close>

subsection \<open>The timed loops\<close>

lemma generated_Suc: "generated s k (Suc n) = Generate (PrivateKey s k) # generated s (Suc k) n"
  by (simp add: generated_def upt_conv_Cons)

lemma repeat_generate:
  "repeat n (\<lambda>w. Inr (snd (generate s w))) w =
     Inr (w\<lparr>keys_made := keys_made w + n, trace := trace w @ generated s (keys_made w) n\<rparr>)"
proof (induction n arbitrary: w)
  case 0
  then show ?case by (simp add: generated_def)
next
  case (Suc n)
  have "repeat (Suc n) (\<lambda>w. Inr (snd (generate s w))) w =
          repeat n (\<lambda>w. Inr (snd (generate s w))) (snd (generate s w))" by simp
  also have "\<dots> = Inr (w\<lparr>keys_made := keys_made w + Suc n,
                           trace := trace w @ generated s (keys_made w) (Suc n)\<rparr>)"
    unfolding Suc.IH by (simp add: generate_def generated_Suc Let_def)
  finally show ?case .
qed

lemma repeat_sign:
  "repeat n (\<lambda>w. Inr (snd (sign k msg w))) w =
     Inr (w\<lparr>trace := trace w @ replicate n (Sign k msg)\<rparr>)"
proof (induction n arbitrary: w)
  case 0
  then show ?case by simp
next
  case (Suc n)
  have "repeat (Suc n) (\<lambda>w. Inr (snd (sign k msg w))) w =
          repeat n (\<lambda>w. Inr (snd (sign k msg w))) (snd (sign k msg w))" by simp
  also have "\<dots> = Inr (w\<lparr>trace := trace w @ replicate (Suc n) (Sign k msg)\<rparr>)"
    unfolding Suc.IH by (simp add: sign_def)
  finally show ?case .
qed

lemma repeat_verify:
  "repeat n (verify (public_key k) (Signature k msg) msg) w =
     Inr (w\<lparr>trace := trace w @ replicate n (Verify (public_key k) (Signature k msg) msg)\<rparr>)"
proof (induction n arbitrary: w)
  case 0
  then show ?case by simp
next
  case (Suc n)
  let ?e = "Verify (public_key k) (Signature k msg) msg"
  have step: "verify (public_key k) (Signature k msg) msg w = Inr (w\<lparr>trace := trace w @ [?e]\<rparr>)"
    by (cases k) simp
  have "repeat (Suc n) (verify (public_key k) (Signature k msg) msg) w =
          repeat n (verify (public_key k) (Signature k msg) msg) (w\<lparr>trace := trace w @ [?e]\<rparr>)"
    by (simp add: step)
  also have "\<dots> = Inr (w\<lparr>trace := trace w @ replicate (Suc n) ?e\<rparr>)"
    unfolding Suc.IH by simp
  finally show ?case .
qed

lemma generate_key_ed25519_eq:
  "generate_key_ed25519 results w =
     Inr (AList.update ''Ed25519 KeyGen''
            ((clock w (clock_reads w + 1) - clock w (clock_reads w)) / real ITERATIONS * 1000000)
            results,
          w\<lparr>clock_reads := clock_reads w + 2, keys_made := keys_made w + ITERATIONS,
            trace := trace w @ [Clock_Read] @ generated Ed25519 (keys_made w) ITERATIONS
                       @ [Clock_Read]\<rparr>)"
  by (simp add: generate_key_ed25519_def time_time_def repeat_generate)

lemma sign_message_ed25519_eq:
  "sign_message_ed25519 results w =
     Inr (AList.update ''Ed25519 Signing''
            ((clock w (clock_reads w + 1) - clock w (clock_reads w)) / real ITERATIONS * 1000000)
            results,
          w\<lparr>clock_reads := clock_reads w + 2, keys_made := keys_made w + 1,
            trace := trace w @ [Generate (PrivateKey Ed25519 (keys_made w)), Clock_Read]
                       @ replicate ITERATIONS (Sign (PrivateKey Ed25519 (keys_made w)) message)
                       @ [Clock_Read]\<rparr>)"
  by (simp add: sign_message_ed25519_def time_time_def generate_def repeat_sign Let_def)

lemma verify_message_ed25519_eq:
  "verify_message_ed25519 results w =
     Inr (AList.update ''Ed25519 Verification''
            ((clock w (clock_reads w + 1) - clock w (clock_reads w)) / real ITERATIONS * 1000000)
            results,
          w\<lparr>clock_reads := clock_reads w + 2, keys_made := keys_made w + 1,
            trace := trace w @ [Generate (PrivateKey Ed25519 (keys_made w)),
                                Sign (PrivateKey Ed25519 (keys_made w)) message, Clock_Read]
                       @ replicate ITERATIONS
                           (Verify (PublicKey Ed25519 (keys_made w))
                              (Signature (PrivateKey Ed25519 (keys_made w)) message) message)
                       @ [Clock_Read]\<rparr>)"
  using repeat_verify [of ITERATIONS "PrivateKey Ed25519 (keys_made w)" message]
  by (simp add: verify_message_ed25519_def time_time_def generate_def sign_def Let_def)

lemma generate_key_secp256k1_eq:
  "generate_key_secp256k1 results w =
     Inr (AList.update ''secp256k1 KeyGen''
            ((clock w (clock_reads w + 1) - clock w (clock_reads w)) / real ITERATIONS * 1000000)
            results,
          w\<lparr>clock_reads := clock_reads w + 2, keys_made := keys_made w + ITERATIONS,
            trace := trace w @ [Clock_Read] @ generated Secp256k1 (keys_made w) ITERATIONS
                       @ [Clock_Read]\<rparr>)"
  by (simp add: generate_key_secp256k1_def time_time_def repeat_generate)

lemma sign_message_secp256k1_eq:
  "sign_message_secp256k1 results w =
     Inr (AList.update ''secp256k1 Signing''
            ((clock w (clock_reads w + 1) - clock w (clock_reads w)) / real ITERATIONS * 1000000)
            results,
          w\<lparr>clock_reads := clock_reads w + 2, keys_made := keys_made w + 1,
            trace := trace w @ [Generate (PrivateKey Secp256k1 (keys_made w)), Clock_Read]
                       @ replicate ITERATIONS (Sign (PrivateKey Secp256k1 (keys_made w)) message)
                       @ [Clock_Read]\<rparr>)"
  by (simp add: sign_message_secp256k1_def time_time_def generate_def repeat_sign Let_def)

lemma verify_message_secp256k1_eq:
  "verify_message_secp256k1 results w =
     Inr (AList.update ''secp256k1 Verification''
            ((clock w (clock_reads w + 1) - clock w (clock_reads w)) / real ITERATIONS * 1000000)
            results,
          w\<lparr>clock_reads := clock_reads w + 2, keys_made := keys_made w + 1,
            trace := trace w @ [Generate (PrivateKey Secp256k1 (keys_made w)),
                                Sign (PrivateKey Secp256k1 (keys_made w)) message, Clock_Read]
                       @ replicate ITERATIONS
                           (Verify (PublicKey Secp256k1 (keys_made w))
                              (Signature (PrivateKey Secp256k1 (keys_made w)) message) message)
                       @ [Clock_Read]\<rparr>)"
  using repeat_verify [of ITERATIONS "PrivateKey Secp256k1 (keys_made w)" message]
  by (simp add: verify_message_secp256k1_def time_time_def generate_def sign_def Let_def)

lemma benchmark_ed25519_eq:
  "benchmark_ed25519 results w =
     Inr (AList.update ''Ed25519 Verification'' (timing w 4)
            (AList.update ''Ed25519 Signing'' (timing w 2)
               (AList.update ''Ed25519 KeyGen'' (timing w 0) results)),
          w\<lparr>clock_reads := clock_reads w + 6, keys_made := keys_made w + ITERATIONS + 2,
            trace := trace w @ keygen_phase Ed25519 (keys_made w)
                       @ signing_phase (PrivateKey Ed25519 (keys_made w + ITERATIONS))
                       @ verification_phase (PrivateKey Ed25519 (keys_made w + ITERATIONS + 1))\<rparr>)"
  by (simp add: benchmark_ed25519_def generate_key_ed25519_eq sign_message_ed25519_eq
      verify_message_ed25519_eq timing_def keygen_phase_def signing_phase_def
      verification_phase_def numeral_eq_Suc)

lemma benchmark_secp256k1_eq:
  "benchmark_secp256k1 results w =
     Inr (AList.update ''secp256k1 Verification'' (timing w 4)
            (AList.update ''secp256k1 Signing'' (timing w 2)
               (AList.update ''secp256k1 KeyGen'' (timing w 0) results)),
          w\<lparr>clock_reads := clock_reads w + 6, keys_made := keys_made w + ITERATIONS + 2,
            trace := trace w @ keygen_phase Secp256k1 (keys_made w)
                       @ signing_phase (PrivateKey Secp256k1 (keys_made w + ITERATIONS))
                       @ verification_phase (PrivateKey Secp256k1 (keys_made w + ITERATIONS + 1))\<rparr>)"
  by (simp add: benchmark_secp256k1_def generate_key_secp256k1_eq sign_message_secp256k1_eq
      verify_message_secp256k1_eq timing_def keygen_phase_def signing_phase_def
      verification_phase_def numeral_eq_Suc)

lemma filter_update_other:
  "k \<in> L \<Longrightarrow> [p \<leftarrow> AList.update k v al. fst p \<notin> L] = [p \<leftarrow> al. fst p \<notin> L]"
  by (induction al) auto

lemma filter_three_updates:
  "[p \<leftarrow> AList.update k3 v3 (AList.update k2 v2 (AList.update k1 v1 al)). fst p \<notin> {k1, k2, k3}]
     = [p \<leftarrow> al. fst p \<notin> {k1, k2, k3}]"
proof -
  have "k1 \<in> {k1, k2, k3}" "k2 \<in> {k1, k2, k3}" "k3 \<in> {k1, k2, k3}" by simp_all
  then show ?thesis by (simp only: filter_update_other)
qed

lemma three_updates_frame:
  "(\<forall>k. k \<notin> {k1, k2, k3} \<longrightarrow>
      map_of (AList.update k3 v3 (AList.update k2 v2 (AList.update k1 v1 al))) k = map_of al k)
   \<and> fst ` set (AList.update k3 v3 (AList.update k2 v2 (AList.update k1 v1 al)))
       = fst ` set al \<union> {k1, k2, k3}"
  by (auto simp: update_conv' dom_update)

text \<open>
  C2. The code departs from the claim. In each scheme's benchmark every key pair is generated
  outside the timed loops, but the signing phase and the verification phase each generate a key
  pair of their own: after the timed key generations, the signing phase generates the next key
  and signs with it in its timed loop, and the verification phase generates the key after that,
  signs once with it and verifies that signature against its public half in its timed loop. The
  key that signs in the signing phase is not the key whose public half verifies.
\<close>

theorem signing_and_verification_keys_differ:
  "(\<exists>results' w'.
      benchmark_ed25519 results w = Inr (results', w') \<and>
      trace w' = trace w @ keygen_phase Ed25519 (keys_made w)
                   @ signing_phase (PrivateKey Ed25519 (keys_made w + ITERATIONS))
                   @ verification_phase (PrivateKey Ed25519 (keys_made w + ITERATIONS + 1)))
   \<and> PrivateKey Ed25519 (keys_made w + ITERATIONS) \<noteq> PrivateKey Ed25519 (keys_made w + ITERATIONS + 1)
   \<and> (\<exists>results' w'.
      benchmark_secp256k1 results w = Inr (results', w') \<and>
      trace w' = trace w @ keygen_phase Secp256k1 (keys_made w)
                   @ signing_phase (PrivateKey Secp256k1 (keys_made w + ITERATIONS))
                   @ verification_phase (PrivateKey Secp256k1 (keys_made w + ITERATIONS + 1)))
   \<and> PrivateKey Secp256k1 (keys_made w + ITERATIONS)
        \<noteq> PrivateKey Secp256k1 (keys_made w + ITERATIONS + 1)"
  by (simp add: benchmark_ed25519_eq benchmark_secp256k1_eq)

theorem signing_and_verification_keys_differ_at_start:
  "(\<exists>results' w'.
      benchmark_ed25519 [] fresh_world = Inr (results', w') \<and>
      trace w' = keygen_phase Ed25519 0 @ signing_phase (PrivateKey Ed25519 1000)
                   @ verification_phase (PrivateKey Ed25519 1001))
   \<and> PrivateKey Ed25519 1000 \<noteq> PrivateKey Ed25519 1001"
  using signing_and_verification_keys_differ [of "[]" fresh_world]
  by (simp add: fresh_world_def ITERATIONS_def)

text \<open>
  C10. Each scheme's benchmark returns, for every mapping passed in, a mapping in which every
  label other than the scheme's three has the value it had, the entries under other labels are
  the same and in the same order, and the labels are those of the mapping passed in and the
  scheme's three. Run one after the other from the empty mapping, as \<open>main\<close> does, they
  return a mapping whose labels are exactly the six fixed labels.
\<close>

theorem benchmarks_add_only_their_labels:
  "(\<exists>results' w'.
      benchmark_ed25519 results w = Inr (results', w') \<and>
      (\<forall>k. k \<notin> {''Ed25519 KeyGen'', ''Ed25519 Signing'', ''Ed25519 Verification''}
            \<longrightarrow> map_of results' k = map_of results k) \<and>
      [p \<leftarrow> results'. fst p \<notin> {''Ed25519 KeyGen'', ''Ed25519 Signing'', ''Ed25519 Verification''}]
        = [p \<leftarrow> results. fst p \<notin> {''Ed25519 KeyGen'', ''Ed25519 Signing'', ''Ed25519 Verification''}] \<and>
      fst ` set results' =
        fst ` set results \<union> {''Ed25519 KeyGen'', ''Ed25519 Signing'', ''Ed25519 Verification''})
   \<and> (\<exists>results' w'.
      benchmark_secp256k1 results w = Inr (results', w') \<and>
      (\<forall>k. k \<notin> {''secp256k1 KeyGen'', ''secp256k1 Signing'', ''secp256k1 Verification''}
            \<longrightarrow> map_of results' k = map_of results k) \<and>
      [p \<leftarrow> results'. fst p \<notin> {''secp256k1 KeyGen'', ''secp256k1 Signing'', ''secp256k1 Verification''}]
        = [p \<leftarrow> results. fst p \<notin> {''secp256k1 KeyGen'', ''secp256k1 Signing'', ''secp256k1 Verification''}] \<and>
      fst ` set results' =
        fst ` set results
          \<union> {''secp256k1 KeyGen'', ''secp256k1 Signing'', ''secp256k1 Verification''})
   \<and> (\<exists>results' w'.
      main_results w = Inr (results', w') \<and>
      map fst results' =
        [''Ed25519 KeyGen'', ''Ed25519 Signing'', ''Ed25519 Verification'',
         ''secp256k1 KeyGen'', ''secp256k1 Signing'', ''secp256k1 Verification''])"
proof -
  have ed: "\<exists>results' w'.
      benchmark_ed25519 results w = Inr (results', w') \<and>
      (\<forall>k. k \<notin> {''Ed25519 KeyGen'', ''Ed25519 Signing'', ''Ed25519 Verification''}
            \<longrightarrow> map_of results' k = map_of results k) \<and>
      [p \<leftarrow> results'. fst p \<notin> {''Ed25519 KeyGen'', ''Ed25519 Signing'', ''Ed25519 Verification''}]
        = [p \<leftarrow> results. fst p \<notin> {''Ed25519 KeyGen'', ''Ed25519 Signing'', ''Ed25519 Verification''}] \<and>
      fst ` set results' =
        fst ` set results \<union> {''Ed25519 KeyGen'', ''Ed25519 Signing'', ''Ed25519 Verification''}"
  proof -
    let ?r = "AList.update ''Ed25519 Verification'' (timing w 4)
                (AList.update ''Ed25519 Signing'' (timing w 2)
                   (AList.update ''Ed25519 KeyGen'' (timing w 0) results))"
    have run: "\<exists>w'. benchmark_ed25519 results w = Inr (?r, w')"
      unfolding benchmark_ed25519_eq by simp
    note frame = three_updates_frame [where ?k1.0 = "''Ed25519 KeyGen''" and ?k2.0 = "''Ed25519 Signing''"
        and ?k3.0 = "''Ed25519 Verification''" and ?v1.0 = "timing w 0" and ?v2.0 = "timing w 2"
        and ?v3.0 = "timing w 4" and al = results]
    note order = filter_three_updates [where ?k1.0 = "''Ed25519 KeyGen''" and ?k2.0 = "''Ed25519 Signing''"
        and ?k3.0 = "''Ed25519 Verification''" and ?v1.0 = "timing w 0" and ?v2.0 = "timing w 2"
        and ?v3.0 = "timing w 4" and al = results]
    from run frame [THEN conjunct1] order frame [THEN conjunct2] show ?thesis
      by (intro exI [of _ ?r]) (elim exE, intro exI conjI)
  qed
  have secp: "\<exists>results' w'.
      benchmark_secp256k1 results w = Inr (results', w') \<and>
      (\<forall>k. k \<notin> {''secp256k1 KeyGen'', ''secp256k1 Signing'', ''secp256k1 Verification''}
            \<longrightarrow> map_of results' k = map_of results k) \<and>
      [p \<leftarrow> results'. fst p \<notin> {''secp256k1 KeyGen'', ''secp256k1 Signing'', ''secp256k1 Verification''}]
        = [p \<leftarrow> results. fst p \<notin> {''secp256k1 KeyGen'', ''secp256k1 Signing'', ''secp256k1 Verification''}] \<and>
      fst ` set results' =
        fst ` set results
          \<union> {''secp256k1 KeyGen'', ''secp256k1 Signing'', ''secp256k1 Verification''}"
  proof -
    let ?r = "AList.update ''secp256k1 Verification'' (timing w 4)
                (AList.update ''secp256k1 Signing'' (timing w 2)
                   (AList.update ''secp256k1 KeyGen'' (timing w 0) results))"
    have run: "\<exists>w'. benchmark_secp256k1 results w = Inr (?r, w')"
      unfolding benchmark_secp256k1_eq by simp
    note frame = three_updates_frame [where ?k1.0 = "''secp256k1 KeyGen''" and ?k2.0 = "''secp256k1 Signing''"
        and ?k3.0 = "''secp256k1 Verification''" and ?v1.0 = "timing w 0" and ?v2.0 = "timing w 2"
        and ?v3.0 = "timing w 4" and al = results]
    note order = filter_three_updates [where ?k1.0 = "''secp256k1 KeyGen''" and ?k2.0 = "''secp256k1 Signing''"
        and ?k3.0 = "''secp256k1 Verification''" and ?v1.0 = "timing w 0" and ?v2.0 = "timing w 2"
        and ?v3.0 = "timing w 4" and al = results]
    from run frame [THEN conjunct1] order frame [THEN conjunct2] show ?thesis
      by (intro exI [of _ ?r]) (elim exE, intro exI conjI)
  qed
  have both: "\<exists>results' w'.
      main_results w = Inr (results', w') \<and>
      map fst results' =
        [''Ed25519 KeyGen'', ''Ed25519 Signing'', ''Ed25519 Verification'',
         ''secp256k1 KeyGen'', ''secp256k1 Signing'', ''secp256k1 Verification'']"
    by (simp add: main_results_def benchmark_ed25519_eq benchmark_secp256k1_eq)
  from ed secp both show ?thesis by (intro conjI)
qed

theorem benchmarks_add_only_their_labels_witness:
  "(\<exists>results' w'.
      benchmark_ed25519 [(''secp256k1 KeyGen'', 7)] fresh_world = Inr (results', w') \<and>
      map_of results' ''secp256k1 KeyGen'' = Some 7)
   \<and> (\<exists>results' w'.
      benchmark_secp256k1 [(''Ed25519 KeyGen'', 7)] fresh_world = Inr (results', w') \<and>
      map_of results' ''Ed25519 KeyGen'' = Some 7)"
proof (rule conjI)
  have n: "''secp256k1 KeyGen'' \<notin> {''Ed25519 KeyGen'', ''Ed25519 Signing'', ''Ed25519 Verification''}"
    by simp
  note benchmarks_add_only_their_labels [of "[(''secp256k1 KeyGen'', 7)]" fresh_world, THEN conjunct1]
  then show "\<exists>results' w'.
      benchmark_ed25519 [(''secp256k1 KeyGen'', 7)] fresh_world = Inr (results', w') \<and>
      map_of results' ''secp256k1 KeyGen'' = Some 7"
  proof (elim exE conjE)
    fix r1 w1
    assume b: "benchmark_ed25519 [(''secp256k1 KeyGen'', 7)] fresh_world = Inr (r1, w1)"
      and k: "\<forall>k. k \<notin> {''Ed25519 KeyGen'', ''Ed25519 Signing'', ''Ed25519 Verification''}
            \<longrightarrow> map_of r1 k = map_of [(''secp256k1 KeyGen'', 7)] k"
    from k have "''secp256k1 KeyGen'' \<notin> {''Ed25519 KeyGen'', ''Ed25519 Signing'', ''Ed25519 Verification''}
            \<longrightarrow> map_of r1 ''secp256k1 KeyGen'' = map_of [(''secp256k1 KeyGen'', 7)] ''secp256k1 KeyGen''"
      by (rule spec)
    from this n have "map_of r1 ''secp256k1 KeyGen'' = map_of [(''secp256k1 KeyGen'', 7)] ''secp256k1 KeyGen''"
      by (rule mp)
    then have "map_of r1 ''secp256k1 KeyGen'' = Some 7" by simp
    with b show ?thesis by (intro exI conjI)
  qed
next
  have n: "''Ed25519 KeyGen''
              \<notin> {''secp256k1 KeyGen'', ''secp256k1 Signing'', ''secp256k1 Verification''}"
    by simp
  note benchmarks_add_only_their_labels [of "[(''Ed25519 KeyGen'', 7)]" fresh_world,
      THEN conjunct2, THEN conjunct1]
  then show "\<exists>results' w'.
      benchmark_secp256k1 [(''Ed25519 KeyGen'', 7)] fresh_world = Inr (results', w') \<and>
      map_of results' ''Ed25519 KeyGen'' = Some 7"
  proof (elim exE conjE)
    fix r2 w2
    assume b: "benchmark_secp256k1 [(''Ed25519 KeyGen'', 7)] fresh_world = Inr (r2, w2)"
      and k: "\<forall>k. k \<notin> {''secp256k1 KeyGen'', ''secp256k1 Signing'', ''secp256k1 Verification''}
            \<longrightarrow> map_of r2 k = map_of [(''Ed25519 KeyGen'', 7)] k"
    from k have "''Ed25519 KeyGen'' \<notin> {''secp256k1 KeyGen'', ''secp256k1 Signing'', ''secp256k1 Verification''}
            \<longrightarrow> map_of r2 ''Ed25519 KeyGen'' = map_of [(''Ed25519 KeyGen'', 7)] ''Ed25519 KeyGen''"
      by (rule spec)
    from this n have "map_of r2 ''Ed25519 KeyGen'' = map_of [(''Ed25519 KeyGen'', 7)] ''Ed25519 KeyGen''"
      by (rule mp)
    then have "map_of r2 ''Ed25519 KeyGen'' = Some 7" by simp
    with b show ?thesis by (intro exI conjI)
  qed
qed

end
